theory Spec2Isabelle
  imports Complex_Main
begin

section \<open>Data model (src/message.go, src/llm.go, src/unnamed/part_000)\<close>

text \<open>
  Go's \<^verbatim>\<open>any\<close> as it occurs in tool-call argument bags, tool parameter schemas and a
  message's tool-call list. A \<^verbatim>\<open>map[string]any\<close> is an association list read with
  \<open>map_of\<close>; a nil map, like a nil slice, is the empty list. \<open>ANil\<close> is the untyped nil
  interface value. \<open>ANumber\<close> stands for a numeric dynamic type (the code never looks at the
  payload), \<open>AOther\<close> for a value of any further dynamic type, named by its type.
\<close>

datatype any =
    ANil
  | AString string
  | ANumber int
  | ABool bool
  | ASlice "any list"
  | AStringSlice "string list"
  | AMap "(string \<times> any) list"
  | AOther string

text \<open>\<^verbatim>\<open>type MessageRole string\<close> and \<^verbatim>\<open>type ToolType string\<close>: any string is a value.\<close>

type_synonym MessageRole = string
type_synonym ToolType = string

definition MessageRoleUser :: MessageRole where
  "MessageRoleUser = ''user''"

definition MessageRoleAssistant :: MessageRole where
  "MessageRoleAssistant = ''assistant''"

definition MessageRoleSystem :: MessageRole where
  "MessageRoleSystem = ''system''"

definition MessageRoleDeveloper :: MessageRole where
  "MessageRoleDeveloper = ''developer''"

definition ToolTypeFunction :: ToolType where
  "ToolTypeFunction = ''function''"

record Message =
  Role :: MessageRole
  Content :: string
  ToolCalls :: "any list"

record ToolFunction =
  tfName :: string
  tfDescription :: string
  tfStrict :: bool
  tfParameters :: "(string \<times> any) list"

record Tool =
  toolType :: ToolType
  toolFunction :: "ToolFunction option"

record ToolCallFunction =
  Name :: string
  Arguments :: "(string \<times> any) list"

text \<open>\<open>Function\<close> is a pointer in the source: \<open>None\<close> is nil.\<close>

record ToolCall =
  ID :: string
  Type :: ToolType
  Function :: "ToolCallFunction option"

record LLMCompletionResponseChoiceMessage =
  choiceContent :: string
  choiceToolCalls :: "ToolCall list"

record LLMCompletionResponseChoice =
  choiceMessage :: LLMCompletionResponseChoiceMessage

record LLMCompletionResponse =
  Choices :: "LLMCompletionResponseChoice list"

text \<open>Durations are nanosecond counts.\<close>

record Result =
  Success :: bool
  Conversation :: "Message list"
  Reasoning :: string
  MetCriteria :: "string list"
  UnmetCriteria :: "string list"
  TriggeredFailures :: "string list"
  TotalDurationNSec :: int
  AgentDurationNSec :: int

text \<open>
  Errors as values. \<open>New t\<close> is \<^verbatim>\<open>errors.New(t)\<close> or a \<^verbatim>\<open>fmt.Errorf\<close> whose text is fully
  rendered; \<open>Wrap p e\<close> is \<^verbatim>\<open>fmt.Errorf(p + ": %w", e)\<close>; \<open>UnexpectedResult p r\<close> is
  \<^verbatim>\<open>fmt.Errorf(p + ": %v", r)\<close> with the rendering of the Result left symbolic.
\<close>

datatype error =
    New string
  | Wrap string error
  | UnexpectedResult string Result

text \<open>A call either returns or panics (nil dereference).\<close>

datatype 'a outcome = Panic | Return 'a

subsection \<open>Partial results (src/unnamed/part_000)\<close>

definition NewSuccessPartialResult :: "Message list \<Rightarrow> string \<Rightarrow> string list \<Rightarrow> Result" where
  "NewSuccessPartialResult conversation reasoning metCriteria =
     \<lparr>Success = True, Conversation = conversation, Reasoning = reasoning,
      MetCriteria = metCriteria, UnmetCriteria = [], TriggeredFailures = [],
      TotalDurationNSec = 0, AgentDurationNSec = 0\<rparr>"

definition NewFailurePartialResult ::
  "Message list \<Rightarrow> string \<Rightarrow> string list \<Rightarrow> string list \<Rightarrow> string list \<Rightarrow> Result" where
  "NewFailurePartialResult conversation reasoning metCriteria unmetCriteria triggeredFailures =
     \<lparr>Success = False, Conversation = conversation, Reasoning = reasoning,
      MetCriteria = metCriteria, UnmetCriteria = unmetCriteria,
      TriggeredFailures = triggeredFailures,
      TotalDurationNSec = 0, AgentDurationNSec = 0\<rparr>"

definition NewInconclusivePartialResult ::
  "Message list \<Rightarrow> string \<Rightarrow> string list \<Rightarrow> string list \<Rightarrow> string list \<Rightarrow> Result" where
  "NewInconclusivePartialResult conversation reasoning metCriteria unmetCriteria triggeredFailures =
     \<lparr>Success = False, Conversation = conversation, Reasoning = reasoning,
      MetCriteria = metCriteria, UnmetCriteria = unmetCriteria,
      TriggeredFailures = triggeredFailures,
      TotalDurationNSec = 0, AgentDurationNSec = 0\<rparr>"

text \<open>\<^verbatim>\<open>&Result{Success: false}\<close>: every other field has its zero value.\<close>

definition failedResult :: Result where
  "failedResult =
     \<lparr>Success = False, Conversation = [], Reasoning = [],
      MetCriteria = [], UnmetCriteria = [], TriggeredFailures = [],
      TotalDurationNSec = 0, AgentDurationNSec = 0\<rparr>"

subsection \<open>Decimal rendering of an int (the \<^verbatim>\<open>%d\<close> verb)\<close>

fun digitsOf :: "nat \<Rightarrow> string" where
  "digitsOf n =
     (if n < 10 then [''0123456789'' ! n]
      else digitsOf (n div 10) @ [''0123456789'' ! (n mod 10)])"

declare digitsOf.simps [simp del]

definition formatInt :: "int \<Rightarrow> string" where
  "formatInt i = (if i < 0 then ''-'' @ digitsOf (nat (- i)) else digitsOf (nat i))"

section \<open>Testing agent (src/scenario_test.go, lines 338 to 673)\<close>

subsection \<open>Verdict extraction\<close>

text \<open>
  The loop of \<^verbatim>\<open>extractStringArray\<close> over a \<^verbatim>\<open>[]any\<close>: \<open>i\<close> is the index of the head
  of the remaining items.
\<close>

fun stringItems :: "string \<Rightarrow> nat \<Rightarrow> any list \<Rightarrow> error + string list" where
  "stringItems key i [] = Inr []"
| "stringItems key i (item # rest) =
     (case item of
        AString strItem \<Rightarrow>
          (case stringItems key (Suc i) rest of
             Inl e \<Rightarrow> Inl e
           | Inr strSlice \<Rightarrow> Inr (strItem # strSlice))
      | _ \<Rightarrow> Inl (New (''item at index '' @ formatInt (int i) @ '' in '' @ key
                        @ '' is not a string'')))"

definition extractStringArray :: "(string \<times> any) list \<Rightarrow> string \<Rightarrow> error + string list" where
  "extractStringArray data key =
     (case map_of data key of
        None \<Rightarrow> Inl (New (key @ '' not found''))
      | Some val \<Rightarrow>
          (case val of
             ASlice interfaceSlice \<Rightarrow> stringItems key 0 interfaceSlice
           | AStringSlice strSlice \<Rightarrow> Inr strSlice
           | ANil \<Rightarrow> Inr []
           | _ \<Rightarrow> Inl (New (key @ '' is not a valid string array, []any, or nil''))))"

text \<open>
  \<^verbatim>\<open>extractFinishTestParams\<close>. The source dereferences \<^verbatim>\<open>toolCall.Function\<close>, which
  panics on nil. On an error the partially filled named results are not read by the caller
  and are left out.
\<close>

type_synonym FinishTestParams = "string \<times> string \<times> string list \<times> string list \<times> string list"

definition extractFinishTestParams :: "ToolCall \<Rightarrow> (error + FinishTestParams) outcome" where
  "extractFinishTestParams toolCall =
     (case Function toolCall of
        None \<Rightarrow> Panic
      | Some f \<Rightarrow>
          Return
           (let args = Arguments f in
            case map_of args ''verdict'' of
              Some (AString verdict) \<Rightarrow>
                (case map_of args ''reasoning'' of
                   Some (AString reasoning) \<Rightarrow>
                     (case map_of args ''details'' of
                        Some (AMap details) \<Rightarrow>
                          (case extractStringArray details ''met_criteria'' of
                             Inl e \<Rightarrow> Inl e
                           | Inr metCriteria \<Rightarrow>
                               (case extractStringArray details ''unmet_criteria'' of
                                  Inl e \<Rightarrow> Inl e
                                | Inr unmetCriteria \<Rightarrow>
                                    (case extractStringArray details ''triggered_failures'' of
                                       Inl e \<Rightarrow> Inl e
                                     | Inr triggeredFailures \<Rightarrow>
                                         Inr (verdict, reasoning, metCriteria, unmetCriteria,
                                              triggeredFailures))))
                      | _ \<Rightarrow> Inl (New ''details is not a map''))
                 | _ \<Rightarrow> Inl (New ''reasoning is not a string''))
            | _ \<Rightarrow> Inl (New ''verdict is not a string'')))"

subsection \<open>Prompt construction\<close>

record testingAgentSystemMessageParams =
  Description :: string
  Strategy :: string
  SuccessCriteriaJSON :: string
  FailureCriteriaJSON :: string

text \<open>
  \<^verbatim>\<open>testingAgentSystemMessageTemplate.Execute\<close>: the template text with its four fields
  substituted. The template prints string fields as they are, and writing into an in-memory
  buffer does not fail, so the rendering is a total function.
\<close>

definition testingAgentSystemMessage :: "testingAgentSystemMessageParams \<Rightarrow> string" where
  "testingAgentSystemMessage p =
     ''\<newline><role>\<newline>'' @
     ''You are pretending to be a user, you are testing an AI Agent (shown as the user role) based on a scenario.\<newline>'' @
     ''Approach this naturally, as a human user would, with very short inputs, few words, all lowercase, imperative, not periods, like when they google or talk to chatgpt.\<newline>'' @
     ''</role>\<newline>\<newline><goal>\<newline>'' @
     ''Your goal (assistant) is to interact with the Agent Under Test (user) as if you were a human user to see if it can complete the scenario successfully.\<newline>'' @
     ''</goal>\<newline>\<newline><scenario>\<newline>'' @ Description p @
     ''\<newline></scenario>\<newline>\<newline><strategy>\<newline>'' @ Strategy p @
     ''\<newline></strategy>\<newline>\<newline><success_criteria>\<newline>'' @ SuccessCriteriaJSON p @
     ''\<newline></success_criteria>\<newline>\<newline><failure_criteria>\<newline>'' @ FailureCriteriaJSON p @
     ''\<newline></failure_criteria>\<newline>\<newline><execution_flow>\<newline>'' @
     ''1. Generate the first message to start the scenario\<newline>'' @
     ''2. After the Agent Under Test (user) responds, generate the next message to send to the Agent Under Test, keep repeating step 2 until the criteria match\<newline>'' @
     ''3. If the test should end, use the finish_test tool to determine if success or failure criteria have been met\<newline>'' @
     ''</execution_flow>\<newline>\<newline><rules>\<newline>'' @
     ''1. Test should end immediately if a failure criteria is triggered\<newline>'' @
     ''2. Test should continue until all success criteria have been met\<newline>'' @
     ''3. DO NOT make any judgment calls that are not explicitly listed in the success or failure criteria, withhold judgement if necessary\<newline>'' @
     ''4. DO NOT carry over any requests yourself, YOU ARE NOT the assistant today, wait for the user to do it\<newline>'' @
     ''</rules>\<newline>''"

definition testingAgentFinishTestMessage :: string where
  "testingAgentFinishTestMessage =
     ''\<newline>System:\<newline>\<newline><finish_test>\<newline>'' @
     ''This is the last message, conversation has reached the maximum number of turns, give your final verdict,\<newline>'' @
     ''if you don't have enough information to make a verdict, say inconclusive with max turns reached.\<newline>'' @
     ''</finish_test>''"

definition testingAgentGreeting :: string where
  "testingAgentGreeting = ''Hello, how can I help you today?''"

text \<open>
  The transcript built before the role loop: system prompt, synthetic greeting, the
  conversation, and the finish cue when \<open>lastMessage\<close> holds.
\<close>

definition buildMessages :: "string \<Rightarrow> Message list \<Rightarrow> bool \<Rightarrow> Message list" where
  "buildMessages systemMessage conversation lastMessage =
     (let messages =
            [\<lparr>Role = MessageRoleSystem, Content = systemMessage, ToolCalls = []\<rparr>,
             \<lparr>Role = MessageRoleAssistant, Content = testingAgentGreeting, ToolCalls = []\<rparr>]
            @ conversation
      in if lastMessage
         then messages @ [\<lparr>Role = MessageRoleUser, Content = testingAgentFinishTestMessage,
                            ToolCalls = []\<rparr>]
         else messages)"

subsection \<open>Role inversion loop\<close>

text \<open>
  The body of \<^verbatim>\<open>for _, message := range messages\<close>, as a function of the loop variable
  \<open>message\<close>: a message with tool calls is skipped (\<^verbatim>\<open>continue\<close>), otherwise the switch
  assigns \<open>message.Role\<close>. The source reads the tool-call list as \<^verbatim>\<open>message.Tools\<close>.
\<close>

definition swapRole :: "Message \<Rightarrow> Message" where
  "swapRole message =
     (if length (ToolCalls message) > 0 then message
      else if Role message = MessageRoleAssistant then message\<lparr>Role := MessageRoleUser\<rparr>
      else if Role message = MessageRoleUser then message\<lparr>Role := MessageRoleAssistant\<rparr>
      else message)"

text \<open>
  The loop itself. A Go range clause with a value variable copies each element of the slice
  into \<open>message\<close>; the body assigns to that copy and no statement stores it back into
  \<open>messages\<close>. The first argument is the slice, the second the elements still to be visited.
\<close>

fun rangeMessages :: "Message list \<Rightarrow> Message list \<Rightarrow> Message list" where
  "rangeMessages messages [] = messages"
| "rangeMessages messages (element # rest) =
     (let message = swapRole element in rangeMessages messages rest)"

subsection \<open>The finish_test tool\<close>

definition finishTestTool :: Tool where
  "finishTestTool =
     \<lparr>toolType = ToolTypeFunction,
      toolFunction = Some
       \<lparr>tfName = ''finish_test'',
        tfDescription = ''Complete the test with a final verdict'',
        tfStrict = True,
        tfParameters =
          [(''type'', AString ''object''),
           (''properties'', AMap
             [(''verdict'', AMap
                [(''type'', AString ''string''),
                 (''enum'', AStringSlice [''success'', ''failure'', ''inconclusive'']),
                 (''description'', AString ''The final verdict of the test'')]),
              (''reasoning'', AMap
                [(''type'', AString ''string''),
                 (''description'', AString ''Explanation of why this verdict was reached'')]),
              (''details'', AMap
                [(''type'', AString ''object''),
                 (''properties'', AMap
                   [(''met_criteria'', AMap
                      [(''type'', AString ''array''),
                       (''items'', AMap [(''type'', AString ''string'')]),
                       (''description'', AString ''List of success criteria that have been met'')]),
                    (''unmet_criteria'', AMap
                      [(''type'', AString ''array''),
                       (''items'', AMap [(''type'', AString ''string'')]),
                       (''description'', AString ''List of success criteria that have not been met'')]),
                    (''triggered_failures'', AMap
                      [(''type'', AString ''array''),
                       (''items'', AMap [(''type'', AString ''string'')]),
                       (''description'', AString ''List of failure criteria that have been triggered'')])]),
                 (''required'', AStringSlice [''met_criteria'', ''unmet_criteria'', ''triggered_failures'']),
                 (''additionalProperties'', ABool False),
                 (''description'', AString ''Detailed information about criteria evaluation'')])]),
           (''required'', AStringSlice [''verdict'', ''reasoning'', ''details'']),
           (''additionalProperties'', ABool False)]\<rparr>\<rparr>"

subsection \<open>Response handling\<close>

type_synonym NextMessage = "string option \<times> Result option \<times> error option"

text \<open>
  The part of \<^verbatim>\<open>GenerateNextMessage\<close> after the completion call returned a response
  without error: first choice, its first tool call, the verdict switch, and the fall-through
  to the text content.
\<close>

definition contentResult :: "LLMCompletionResponseChoice \<Rightarrow> NextMessage outcome" where
  "contentResult choice =
     (if choiceContent (choiceMessage choice) = []
      then Return (None, None, Some (New ''no content returned in choice''))
      else Return (Some (choiceContent (choiceMessage choice)), None, None))"

definition verdictResult ::
  "Message list \<Rightarrow> FinishTestParams \<Rightarrow> Result" where
  "verdictResult conversation params =
     (case params of (verdict, reasoning, metCriteria, unmetCriteria, triggeredFailures) \<Rightarrow>
        if verdict = ''success''
        then NewSuccessPartialResult conversation reasoning metCriteria
        else if verdict = ''failure''
        then NewFailurePartialResult conversation reasoning metCriteria unmetCriteria
               triggeredFailures
        else NewInconclusivePartialResult conversation reasoning metCriteria unmetCriteria
               triggeredFailures)"

definition responseResult :: "Message list \<Rightarrow> LLMCompletionResponse \<Rightarrow> NextMessage outcome" where
  "responseResult conversation resp =
     (case Choices resp of
        [] \<Rightarrow> Return (None, None, Some (New ''no choices returned''))
      | choice # _ \<Rightarrow>
          (case choiceToolCalls (choiceMessage choice) of
             [] \<Rightarrow> contentResult choice
           | toolCall # _ \<Rightarrow>
               if Type toolCall \<noteq> ToolTypeFunction
               then Return (None, None, Some (New ''tool call is not a function''))
               else
                 (case Function toolCall of
                    None \<Rightarrow> Panic
                  | Some f \<Rightarrow>
                      if Name f = ''finish_test''
                      then
                        (case extractFinishTestParams toolCall of
                           Panic \<Rightarrow> Panic
                         | Return (Inl err) \<Rightarrow>
                             Return (None, None,
                               Some (Wrap ''failed to extract finish_test parameters'' err))
                         | Return (Inr params) \<Rightarrow>
                             Return (None, Some (verdictResult conversation params), None))
                      else contentResult choice)))"

subsection \<open>GenerateNextMessage\<close>

text \<open>
  The completion backend is an external collaborator: a function of its arguments and of the
  state of the outside world \<open>'w\<close>, returning a response pointer and an error.
\<close>

type_synonym 'w LLMCompletion =
  "Message list \<Rightarrow> real option \<Rightarrow> int option \<Rightarrow> Tool list \<Rightarrow> string option \<Rightarrow> 'w
     \<Rightarrow> (LLMCompletionResponse option \<times> error option) \<times> 'w"

record 'w testingAgent =
  llmCompletion :: "'w LLMCompletion"
  temperature :: "real option"
  maxTokens :: "int option"

definition NewTestingAgent :: "'w LLMCompletion \<Rightarrow> 'w testingAgent" where
  "NewTestingAgent llm = \<lparr>llmCompletion = llm, temperature = Some 0, maxTokens = None\<rparr>"

text \<open>
  Lines 448 to 495 of \<^verbatim>\<open>GenerateNextMessage\<close>: the message list handed to the completion
  backend. \<^verbatim>\<open>json.MarshalIndent\<close> belongs to the standard library; its rendering of a
  string slice is the parameter \<open>jsonMarshalIndent\<close>.
\<close>

definition completionMessages ::
  "(string list \<Rightarrow> error + string) \<Rightarrow> string \<Rightarrow> string \<Rightarrow> string list \<Rightarrow> string list
     \<Rightarrow> Message list \<Rightarrow> bool \<Rightarrow> error + Message list" where
  "completionMessages jsonMarshalIndent description strategy successCriteria failureCriteria
       conversation lastMessage =
     (case jsonMarshalIndent successCriteria of
        Inl err \<Rightarrow> Inl err
      | Inr successCriteriaJSON \<Rightarrow>
     (case jsonMarshalIndent failureCriteria of
        Inl err \<Rightarrow> Inl err
      | Inr failureCriteriaJSON \<Rightarrow>
          (let systemMessage = testingAgentSystemMessage
                 \<lparr>Description = description, Strategy = strategy,
                  SuccessCriteriaJSON = successCriteriaJSON,
                  FailureCriteriaJSON = failureCriteriaJSON\<rparr>;
               messages = buildMessages systemMessage conversation lastMessage;
               messages = rangeMessages messages messages
           in Inr messages)))"

text \<open>
  The whole call. \<open>firstMessage\<close> is not read by the body. A nil response with a nil error
  makes \<^verbatim>\<open>resp.Choices\<close> panic.
\<close>

definition GenerateNextMessage ::
  "(string list \<Rightarrow> error + string) \<Rightarrow> 'w testingAgent \<Rightarrow> string \<Rightarrow> string \<Rightarrow> string list
     \<Rightarrow> string list \<Rightarrow> Message list \<Rightarrow> bool \<Rightarrow> bool \<Rightarrow> 'w \<Rightarrow> NextMessage outcome \<times> 'w" where
  "GenerateNextMessage jsonMarshalIndent t description strategy successCriteria failureCriteria
       conversation firstMessage lastMessage w =
     (case completionMessages jsonMarshalIndent description strategy successCriteria
             failureCriteria conversation lastMessage of
        Inl err \<Rightarrow> (Return (None, None, Some err), w)
      | Inr messages \<Rightarrow>
          (let tools = [finishTestTool];
               toolChoice = (if \<not> lastMessage then None else Some ''required'')
           in case llmCompletion t messages (temperature t) (maxTokens t) tools toolChoice w of
                ((_, Some err), w') \<Rightarrow>
                  (Return (None, None, Some (Wrap ''failed to generate llm completion'' err)), w')
              | ((None, None), w') \<Rightarrow> (Panic, w')
              | ((Some resp, None), w') \<Rightarrow> (responseResult conversation resp, w')))"

section \<open>Scenario engine (src/agent.go, src/scenario.go, options in src/llm_openai.go)\<close>

text \<open>
  The two collaborators are interface values: functions of their arguments and of the state
  of the outside world \<open>'w\<close>, which they may change. A call may panic. The context argument
  is part of the world.
\<close>

type_synonym 'w Agent = "string \<Rightarrow> 'w \<Rightarrow> (Message list \<times> error option) outcome \<times> 'w"

type_synonym 'w TestingAgent =
  "string \<Rightarrow> string \<Rightarrow> string list \<Rightarrow> string list \<Rightarrow> Message list \<Rightarrow> bool \<Rightarrow> bool \<Rightarrow> 'w
     \<Rightarrow> NextMessage outcome \<times> 'w"

text \<open>
  The struct \<^verbatim>\<open>scenario\<close>; a nil interface value is \<open>None\<close>. \<open>maxTurns\<close> is a Go int:
  the only arithmetic on it is \<open>maxTurns - 1\<close>, compared with an iteration index that lies
  between 0 and \<open>maxTurns\<close>, so no wrap-around can be observed and the field is an unbounded
  integer here.
\<close>

record 'w scenario =
  description :: string
  strategy :: string
  agent :: "'w Agent option"
  testingAgent :: "'w TestingAgent option"
  successCriteria :: "string list"
  failureCriteria :: "string list"
  maxTurns :: int
  conversation :: "Message list"

text \<open>
  The option constructors (src/llm_openai.go, lines 118 to 168), each with the assignment
  it performs. A nil option is not a value of the type.
\<close>

datatype 'w ScenarioOption =
    WithDescription string
  | WithStrategy string
  | WithMaxTurns int
  | WithAgent "'w Agent option"
  | WithTestingAgent "'w TestingAgent option"
  | WithSuccessCriteria "string list"
  | WithFailureCriteria "string list"

fun applyOption :: "'w ScenarioOption \<Rightarrow> 'w scenario \<Rightarrow> 'w scenario" where
  "applyOption (WithDescription d) s = s\<lparr>description := d\<rparr>"
| "applyOption (WithStrategy x) s = s\<lparr>strategy := x\<rparr>"
| "applyOption (WithMaxTurns n) s = s\<lparr>maxTurns := n\<rparr>"
| "applyOption (WithAgent a) s = s\<lparr>agent := a\<rparr>"
| "applyOption (WithTestingAgent a) s = s\<lparr>testingAgent := a\<rparr>"
| "applyOption (WithSuccessCriteria criteria) s = s\<lparr>successCriteria := criteria\<rparr>"
| "applyOption (WithFailureCriteria criteria) s = s\<lparr>failureCriteria := criteria\<rparr>"

definition NewScenario :: "'w ScenarioOption list \<Rightarrow> 'w scenario" where
  "NewScenario opts =
     foldl (\<lambda>s opt. applyOption opt s)
       \<lparr>description = [],
        strategy = ''Start with a first message and guide the conversation to play out the scenario.'',
        agent = None, testingAgent = None,
        successCriteria = [], failureCriteria = [],
        maxTurns = 10, conversation = []\<rparr>
       opts"

subsection \<open>State of a run\<close>

text \<open>
  A run mutates its receiver (the conversation accumulates) and the world. \<open>calls\<close> is a
  log kept by the model only: every collaborator call in order, with its arguments and what
  it returned.
\<close>

datatype call =
    AgentCall string "(Message list \<times> error option) outcome"
  | TestingAgentCall "Message list" bool bool "NextMessage outcome"

record 'w runState =
  scn :: "'w scenario"
  world :: 'w
  calls :: "call list"

type_synonym RunResult = "(Result option \<times> error option) outcome"

subsection \<open>The turn loop\<close>

text \<open>
  Lines 76 to 82 of src/scenario.go: drop a leading system message, then a leading user
  message.
\<close>

definition removeFirstMessages :: "Message list \<Rightarrow> Message list" where
  "removeFirstMessages agentMessages =
     (let agentMessages =
            (if length agentMessages > 0 \<and> Role (agentMessages ! 0) = MessageRoleSystem
             then drop 1 agentMessages else agentMessages);
          agentMessages =
            (if length agentMessages > 0 \<and> Role (agentMessages ! 0) = MessageRoleUser
             then drop 1 agentMessages else agentMessages)
      in agentMessages)"

text \<open>
  One execution of the loop body: \<open>Done\<close> is a \<^verbatim>\<open>return\<close> inside the body, \<open>Next\<close> is
  reaching its end with the new \<open>currentMessage\<close> and \<open>agentDuration\<close>. The clock is read as
  \<open>now\<close> of the world; \<^verbatim>\<open>time.Since(t)\<close> is \<open>now w - t\<close>. Dereferencing a nil
  \<open>currentMessage\<close> panics before the conversation is assigned.
\<close>

datatype 'w step =
    Done RunResult "'w runState"
  | Next "string option" int "'w runState"

definition turn ::
  "('w \<Rightarrow> int) \<Rightarrow> 'w Agent \<Rightarrow> 'w TestingAgent \<Rightarrow> int \<Rightarrow> int \<Rightarrow> int \<Rightarrow> string option
     \<Rightarrow> 'w runState \<Rightarrow> 'w step" where
  "turn now ag ta testStart iteration agentDuration currentMessage st =
     (let s = scn st;
          lastIteration = (iteration = maxTurns s - 1)
      in case currentMessage of
           None \<Rightarrow> Done Panic st
         | Some text \<Rightarrow>
             (let conv1 = conversation s @ [\<lparr>Role = ''user'', Content = text, ToolCalls = []\<rparr>];
                  st1 = st\<lparr>scn := s\<lparr>conversation := conv1\<rparr>\<rparr>;
                  agentStart = now (world st1);
                  ran = ag text (world st1);
                  st2 = st1\<lparr>world := snd ran, calls := calls st1 @ [AgentCall text (fst ran)]\<rparr>
              in case fst ran of
                   Panic \<Rightarrow> Done Panic st2
                 | Return (agentMessages, Some err) \<Rightarrow>
                     Done (Return (Some failedResult, Some (Wrap ''failed to run agent'' err))) st2
                 | Return (agentMessages, None) \<Rightarrow>
                     if length agentMessages = 0
                     then Done (Return (Some failedResult,
                                  Some (New ''no messages returned from agent''))) st2
                     else
                       (let agentMessages = removeFirstMessages agentMessages;
                            agentDuration = agentDuration + (now (world st2) - agentStart);
                            conv2 = conv1 @ agentMessages;
                            st3 = st2\<lparr>scn := (scn st2)\<lparr>conversation := conv2\<rparr>\<rparr>;
                            gen = ta (description s) (strategy s) (successCriteria s)
                                    (failureCriteria s) conv2 False lastIteration (world st3);
                            st4 = st3\<lparr>world := snd gen,
                                      calls := calls st3 @
                                        [TestingAgentCall conv2 False lastIteration (fst gen)]\<rparr>
                        in case fst gen of
                             Panic \<Rightarrow> Done Panic st4
                           | Return (nextMessage, result, Some err) \<Rightarrow>
                               Done (Return (Some failedResult,
                                       Some (Wrap ''failed to generate next message'' err))) st4
                           | Return (nextMessage, Some result, None) \<Rightarrow>
                               Done (Return
                                      (Some (result\<lparr>AgentDurationNSec := agentDuration,
                                                    TotalDurationNSec := now (world st4) - testStart\<rparr>),
                                       None)) st4
                           | Return (nextMessage, None, None) \<Rightarrow>
                               Next nextMessage agentDuration st4)))"

text \<open>The result built after the loop has run out of turns (src/scenario.go, lines 101 to 110).\<close>

definition exhaustedResult :: "('w \<Rightarrow> int) \<Rightarrow> int \<Rightarrow> int \<Rightarrow> 'w runState \<Rightarrow> Result" where
  "exhaustedResult now testStart agentDuration st =
     \<lparr>Success = False,
      Conversation = conversation (scn st),
      Reasoning = ''The conversation did not end in a failure after ''
                    @ formatInt (maxTurns (scn st)) @ '' turns.'',
      MetCriteria = [], UnmetCriteria = [], TriggeredFailures = [],
      TotalDurationNSec = now (world st) - testStart,
      AgentDurationNSec = agentDuration\<rparr>"

text \<open>
  \<^verbatim>\<open>for iteration := range s.maxTurns\<close>: the first numeric argument counts the iterations
  still to run, the second is \<open>iteration\<close>.
\<close>

fun turnLoop ::
  "('w \<Rightarrow> int) \<Rightarrow> 'w Agent \<Rightarrow> 'w TestingAgent \<Rightarrow> int \<Rightarrow> nat \<Rightarrow> int \<Rightarrow> int \<Rightarrow> string option
     \<Rightarrow> 'w runState \<Rightarrow> RunResult \<times> 'w runState" where
  "turnLoop now ag ta testStart 0 iteration agentDuration currentMessage st =
     (Return (Some (exhaustedResult now testStart agentDuration st), None), st)"
| "turnLoop now ag ta testStart (Suc remaining) iteration agentDuration currentMessage st =
     (case turn now ag ta testStart iteration agentDuration currentMessage st of
        Done res st' \<Rightarrow> (res, st')
      | Next nextMessage agentDuration' st' \<Rightarrow>
          turnLoop now ag ta testStart remaining (iteration + 1) agentDuration' nextMessage st')"

subsection \<open>Run\<close>

text \<open>
  A range over a non-positive int runs no iteration: the count is \<open>nat (maxTurns s)\<close>.
  Calling \<^verbatim>\<open>GenerateNextMessage\<close> on a nil testing agent panics.
\<close>

definition Run :: "('w \<Rightarrow> int) \<Rightarrow> 'w runState \<Rightarrow> RunResult \<times> 'w runState" where
  "Run now st =
     (let s = scn st
      in case agent s of
           None \<Rightarrow> (Return (Some failedResult, Some (New ''agent not set'')), st)
         | Some ag \<Rightarrow>
             (let testStart = now (world st);
                  agentDuration = 0
              in case testingAgent s of
                   None \<Rightarrow> (Panic, st)
                 | Some ta \<Rightarrow>
                     (let gen = ta (description s) (strategy s) (successCriteria s)
                                  (failureCriteria s) (conversation s) True False (world st);
                          st1 = st\<lparr>world := snd gen,
                                   calls := calls st @
                                     [TestingAgentCall (conversation s) True False (fst gen)]\<rparr>
                      in case fst gen of
                           Panic \<Rightarrow> (Panic, st1)
                         | Return (initialMessage, initialResult, Some err) \<Rightarrow>
                             (Return (Some failedResult,
                                Some (Wrap ''failed to generate initial message'' err)), st1)
                         | Return (initialMessage, Some initialResult, None) \<Rightarrow>
                             (Return (Some initialResult,
                                Some (UnexpectedResult
                                  ''initial message generated a result which is unexpected''
                                  initialResult)), st1)
                         | Return (initialMessage, None, None) \<Rightarrow>
                             turnLoop now ag ta testStart (nat (maxTurns s)) 0 agentDuration
                               initialMessage st1)))"

text \<open>A run starts on a scenario with an empty call log.\<close>

definition startRun :: "'w scenario \<Rightarrow> 'w \<Rightarrow> 'w runState" where
  "startRun s w = \<lparr>scn = s, world = w, calls = []\<rparr>"

section \<open>Reference definitions and concrete collaborators\<close>

subsection \<open>Accepted shapes of a criteria array\<close>

text \<open>
  What the specification accepts for a criteria array, written from its words with absence
  of the key added as a rejected case: a generic sequence all of whose elements are strings,
  a string sequence, or a nil value (an empty sequence). \<open>None\<close> is rejection.
\<close>

fun allStrings :: "any list \<Rightarrow> string list option" where
  "allStrings [] = Some []"
| "allStrings (AString s # rest) = map_option ((#) s) (allStrings rest)"
| "allStrings (other # rest) = None"

definition acceptedCriteria :: "any option \<Rightarrow> string list option" where
  "acceptedCriteria v =
     (case v of
        None \<Rightarrow> None
      | Some ANil \<Rightarrow> Some []
      | Some (AStringSlice ss) \<Rightarrow> Some ss
      | Some (ASlice xs) \<Rightarrow> allStrings xs
      | Some other \<Rightarrow> None)"

subsection \<open>Concrete completion backends and tool calls\<close>

text \<open>A rendering of a criteria list that never fails, standing in for the JSON encoder.\<close>

definition renderCriteria :: "string list \<Rightarrow> error + string" where
  "renderCriteria xs = Inr (concat (map (\<lambda>x. x @ ''\<newline>'') xs))"

text \<open>A backend that answers every request with the same response and counts its calls.\<close>

definition replyLLM :: "LLMCompletionResponse \<Rightarrow> nat LLMCompletion" where
  "replyLLM resp messages temp maxTok tools toolChoice w = ((Some resp, None), Suc w)"

text \<open>A backend that fails every request and keeps the message lists it was sent.\<close>

definition recordingLLM :: "(Message list list) LLMCompletion" where
  "recordingLLM messages temp maxTok tools toolChoice w =
     ((None, Some (New ''backend unavailable'')), w @ [messages])"

definition finishCall :: "string \<Rightarrow> (string \<times> any) list \<Rightarrow> ToolCall" where
  "finishCall verdict details =
     \<lparr>ID = ''call_1'', Type = ToolTypeFunction,
      Function = Some \<lparr>Name = ''finish_test'',
        Arguments = [(''verdict'', AString verdict), (''reasoning'', AString ''done''),
                     (''details'', AMap details)]\<rparr>\<rparr>"

definition lookupCall :: ToolCall where
  "lookupCall =
     \<lparr>ID = ''call_2'', Type = ToolTypeFunction,
      Function = Some \<lparr>Name = ''lookup_recipe'', Arguments = []\<rparr>\<rparr>"

definition callResponse :: "string \<Rightarrow> ToolCall list \<Rightarrow> LLMCompletionResponse" where
  "callResponse content toolCalls =
     \<lparr>Choices = [\<lparr>choiceMessage = \<lparr>choiceContent = content, choiceToolCalls = toolCalls\<rparr>\<rparr>]\<rparr>"

definition fullDetails :: "(string \<times> any) list" where
  "fullDetails =
     [(''met_criteria'', ASlice [AString ''recipe given'']),
      (''unmet_criteria'', AStringSlice [''no meat'']),
      (''triggered_failures'', ANil)]"

definition sampleConversation :: "Message list" where
  "sampleConversation =
     [\<lparr>Role = MessageRoleUser, Content = ''hi'', ToolCalls = []\<rparr>,
      \<lparr>Role = MessageRoleAssistant, Content = ''hello'', ToolCalls = []\<rparr>]"

subsection \<open>Normalising a reply, and what a call adds to the conversation\<close>

text \<open>
  The normalisation in the specification's words: drop the first message if its role is
  system, then drop the first message of what is left if its role is user.
\<close>

fun dropLeading :: "MessageRole \<Rightarrow> Message list \<Rightarrow> Message list" where
  "dropLeading r [] = []"
| "dropLeading r (m # ms) = (if Role m = r then ms else m # ms)"

definition normalizeReply :: "Message list \<Rightarrow> Message list" where
  "normalizeReply reply = dropLeading MessageRoleUser (dropLeading MessageRoleSystem reply)"

text \<open>
  The messages one logged call contributes to the conversation: a call of the agent under
  test contributes the user message it was sent, followed by its normalised reply when it
  returned without error; a call of the testing agent contributes nothing.
\<close>

fun recorded :: "call \<Rightarrow> Message list" where
  "recorded (AgentCall sent (Return (reply, None))) =
     \<lparr>Role = MessageRoleUser, Content = sent, ToolCalls = []\<rparr> # normalizeReply reply"
| "recorded (AgentCall sent other) =
     [\<lparr>Role = MessageRoleUser, Content = sent, ToolCalls = []\<rparr>]"
| "recorded (TestingAgentCall conv firstMessage lastMessage r) = []"

fun stepState :: "'w step \<Rightarrow> 'w runState" where
  "stepState (Done res st) = st"
| "stepState (Next nextMessage agentDuration st) = st"

subsection \<open>Concrete collaborators of a run\<close>

text \<open>
  The world is a counter that every collaborator call advances; the clock shows a
  microsecond per tick.
\<close>

definition tickClock :: "nat \<Rightarrow> int" where
  "tickClock w = 1000 * int w"

definition echoAgent :: "nat Agent" where
  "echoAgent message w =
     (Return ([\<lparr>Role = MessageRoleAssistant, Content = ''Agent response to: '' @ message,
                 ToolCalls = []\<rparr>], None), Suc w)"

definition failingAgent :: "nat Agent" where
  "failingAgent message w = (Return ([], Some (New ''agent failed'')), Suc w)"

text \<open>An agent that echoes its framing: a system message and the user's message come first.\<close>

definition framingAgent :: "nat Agent" where
  "framingAgent message w =
     (Return ([\<lparr>Role = MessageRoleSystem, Content = ''you are a cook'', ToolCalls = []\<rparr>,
               \<lparr>Role = MessageRoleUser, Content = message, ToolCalls = []\<rparr>,
               \<lparr>Role = MessageRoleAssistant, Content = ''try lentils'', ToolCalls = []\<rparr>,
               \<lparr>Role = MessageRoleUser, Content = ''thanks'', ToolCalls = []\<rparr>], None), Suc w)"

text \<open>A testing agent that never gives a verdict.\<close>

definition talkingAgent :: "nat TestingAgent" where
  "talkingAgent d x sc fc conv isFirst isLast w =
     (Return (Some ''next message'', None, None), Suc w)"

text \<open>
  The default mock testing agent of src/scenario_test.go (lines 43 to 68): a text on the
  opening call, then success.
\<close>

definition mockTestingAgent :: "nat TestingAgent" where
  "mockTestingAgent d x sc fc conv isFirst isLast w =
     (if isFirst then (Return (Some ''Initial user message'', None, None), Suc w)
      else (Return (None,
              Some (NewSuccessPartialResult conv ''Test succeeded''
                      [''Success criteria met'']), None), Suc w))"

text \<open>
  The testing agent itself (\<open>GenerateNextMessage\<close>) on a backend that calls finish_test with the given
  verdict at once.
\<close>

definition verdictAgent :: "string \<Rightarrow> nat TestingAgent" where
  "verdictAgent verdict =
     GenerateNextMessage renderCriteria
       (NewTestingAgent (replyLLM (callResponse [] [finishCall verdict fullDetails])))"

definition scenarioWith :: "nat Agent \<Rightarrow> nat TestingAgent \<Rightarrow> int \<Rightarrow> nat scenario" where
  "scenarioWith ag ta n =
     NewScenario [WithDescription ''Test Description'', WithAgent (Some ag),
                  WithTestingAgent (Some ta), WithMaxTurns n]"

section \<open>Properties of the testing agent\<close>

subsection \<open>The role loop leaves the slice as it was\<close>

lemma rangeMessages_unchanged: "rangeMessages messages rest = messages"
  by (induction rest) simp_all

lemma completionMessages_built:
  assumes "completionMessages J d s sc fc conv lm = Inr messages"
  shows "\<exists>sys. messages = buildMessages sys conv lm"
  using assms
  by (auto simp: completionMessages_def rangeMessages_unchanged Let_def split: sum.splits)

lemma completionMessages_renderCriteria:
  "completionMessages renderCriteria d s sc fc conv lm =
     Inr (buildMessages
           (testingAgentSystemMessage
              \<lparr>Description = d, Strategy = s,
               SuccessCriteriaJSON = concat (map (\<lambda>x. x @ ''\<newline>'') sc),
               FailureCriteriaJSON = concat (map (\<lambda>x. x @ ''\<newline>'') fc)\<rparr>)
           conv lm)"
  by (simp add: completionMessages_def renderCriteria_def rangeMessages_unchanged)

text \<open>
  C1 (role inversion of the messages sent to the backend). The claim asks that every message
  without tool calls reaches the backend with user and assistant exchanged. The loop assigns
  the exchanged role to its loop variable only, so the backend receives the transcript as it
  was built: for the conversation user ''hi'', assistant ''hello'' the roles sent are system,
  assistant (the greeting), user, assistant, where the claim requires system, user,
  assistant, user. The second equation computes the roles the loop body assigns to its
  variable, which are the ones the claim describes.
\<close>

theorem GenerateNextMessage_sends_roles_unswapped:
  "map (map Role)
     (snd (GenerateNextMessage renderCriteria (NewTestingAgent recordingLLM) ''d'' ''s'' [] []
             sampleConversation False False []))
     = [[''system'', ''assistant'', ''user'', ''assistant'']]
   \<and> map (Role \<circ> swapRole) (buildMessages ''p'' sampleConversation False)
     = [''system'', ''user'', ''assistant'', ''user'']"
  by (simp add: GenerateNextMessage_def completionMessages_renderCriteria NewTestingAgent_def
      recordingLLM_def buildMessages_def sampleConversation_def swapRole_def
      MessageRoleUser_def MessageRoleAssistant_def MessageRoleSystem_def)

subsection \<open>Criteria arrays\<close>

lemma stringItems_allStrings:
  "(case allStrings xs of
      Some ss \<Rightarrow> stringItems key i xs = Inr ss
    | None \<Rightarrow> (\<exists>e. stringItems key i xs = Inl e))"
proof (induction xs arbitrary: i)
  case Nil
  show ?case by simp
next
  case (Cons x xs)
  show ?case
  proof (cases x)
    case (AString s)
    with Cons [of "Suc i"] show ?thesis
      by (cases "allStrings xs") auto
  qed simp_all
qed

lemma extractStringArray_accepted:
  "(case acceptedCriteria (map_of data key) of
      Some ss \<Rightarrow> extractStringArray data key = Inr ss
    | None \<Rightarrow> (\<exists>e. extractStringArray data key = Inl e))"
proof (cases "map_of data key")
  case None
  then show ?thesis by (simp add: acceptedCriteria_def extractStringArray_def)
next
  case (Some v)
  show ?thesis
  proof (cases v)
    case (ASlice xs)
    with Some stringItems_allStrings [where xs = xs and key = key and i = 0] show ?thesis
      by (auto simp: acceptedCriteria_def extractStringArray_def split: option.splits)
  qed (simp_all add: Some acceptedCriteria_def extractStringArray_def)
qed

lemma extractStringArray_Some:
  "acceptedCriteria (map_of data key) = Some ss \<Longrightarrow> extractStringArray data key = Inr ss"
  using extractStringArray_accepted [of data key] by simp

lemma extractStringArray_None:
  "acceptedCriteria (map_of data key) = None \<Longrightarrow> \<exists>e. extractStringArray data key = Inl e"
  using extractStringArray_accepted [of data key] by simp

text \<open>
  Counterexample to C3 as stated: a details map that lacks the key met_criteria is rejected
  with the error ''met_criteria not found''; no empty array is produced for it.
\<close>

theorem extractFinishTestParams_absent_key_counterexample:
  "extractFinishTestParams
     (finishCall ''success'' [(''unmet_criteria'', ASlice []), (''triggered_failures'', ANil)])
     = Return (Inl (New ''met_criteria not found''))
   \<and> extractStringArray [(''unmet_criteria'', ASlice []), (''triggered_failures'', ANil)]
        ''met_criteria'' \<noteq> Inr []"
  by (simp add: extractFinishTestParams_def finishCall_def extractStringArray_def)

text \<open>
  C3 (amended). When the arguments of a finish_test call hold a string verdict, a string
  reasoning and a details map, each of the three criteria arrays is accepted exactly when
  its key is present and its value is a generic sequence of strings, a string sequence, or
  nil (read as the empty sequence). If all three are accepted the call parses to the verdict,
  the reasoning and the three string lists; if any is rejected, a key absent from the
  details map included, the call is a parse error.
\<close>

theorem extractFinishTestParams_criteria_shapes:
  assumes "Function toolCall = Some f"
    and "map_of (Arguments f) ''verdict'' = Some (AString verdict)"
    and "map_of (Arguments f) ''reasoning'' = Some (AString reasoning)"
    and "map_of (Arguments f) ''details'' = Some (AMap details)"
  shows "case (acceptedCriteria (map_of details ''met_criteria''),
               acceptedCriteria (map_of details ''unmet_criteria''),
               acceptedCriteria (map_of details ''triggered_failures'')) of
           (Some met, Some unmet, Some triggered) \<Rightarrow>
              extractFinishTestParams toolCall =
                Return (Inr (verdict, reasoning, met, unmet, triggered))
         | _ \<Rightarrow> (\<exists>e. extractFinishTestParams toolCall = Return (Inl e))"
proof -
  let ?m = "acceptedCriteria (map_of details ''met_criteria'')"
  let ?u = "acceptedCriteria (map_of details ''unmet_criteria'')"
  let ?t = "acceptedCriteria (map_of details ''triggered_failures'')"
  show ?thesis
  proof (cases ?m)
    case None
    from extractStringArray_None [OF this] assms show ?thesis
      by (auto simp: None extractFinishTestParams_def)
  next
    case m: (Some met)
    note em = extractStringArray_Some [OF m]
    show ?thesis
    proof (cases ?u)
      case None
      from extractStringArray_None [OF this] assms em show ?thesis
        by (auto simp: m None extractFinishTestParams_def)
    next
      case u: (Some unmet)
      note eu = extractStringArray_Some [OF u]
      show ?thesis
      proof (cases ?t)
        case None
        from extractStringArray_None [OF this] assms em eu show ?thesis
          by (auto simp: m u None extractFinishTestParams_def)
      next
        case t: (Some triggered)
        from extractStringArray_Some [OF t] assms em eu show ?thesis
          by (simp add: m u t extractFinishTestParams_def)
      qed
    qed
  qed
qed

text \<open>
  Witness for the amended C3: a call whose details hold one array of each accepted shape,
  and a call whose met_criteria holds a number among its items.
\<close>

theorem extractFinishTestParams_criteria_shapes_witness:
  "extractFinishTestParams (finishCall ''failure'' fullDetails)
     = Return (Inr (''failure'', ''done'', [''recipe given''], [''no meat''], []))
   \<and> (\<exists>e. extractFinishTestParams
             (finishCall ''failure'' [(''met_criteria'', ASlice [AString ''a'', ANumber 1])])
           = Return (Inl e))"
proof -
  let ?f = "\<lambda>details. \<lparr>Name = ''finish_test'',
        Arguments = [(''verdict'', AString ''failure''), (''reasoning'', AString ''done''),
                     (''details'', AMap details)]\<rparr>"
  have fn: "Function (finishCall ''failure'' details) = Some (?f details)" for details
    by (simp add: finishCall_def)
  have v: "map_of (Arguments (?f details)) ''verdict'' = Some (AString ''failure'')" for details
    by simp
  have r: "map_of (Arguments (?f details)) ''reasoning'' = Some (AString ''done'')" for details
    by simp
  have d: "map_of (Arguments (?f details)) ''details'' = Some (AMap details)" for details
    by simp
  show ?thesis
    using extractFinishTestParams_criteria_shapes [OF fn v r d, of fullDetails]
      extractFinishTestParams_criteria_shapes [OF fn v r d,
        of "[(''met_criteria'', ASlice [AString ''a'', ANumber 1])]"]
    by (simp add: acceptedCriteria_def fullDetails_def)
qed

subsection \<open>Response handling\<close>

lemma contentResult_one:
  "contentResult choice = Return (msg, res, None) \<Longrightarrow> msg \<noteq> None \<and> res = None"
  by (auto simp: contentResult_def split: if_splits)

lemma responseResult_one:
  assumes "responseResult conv resp = Return (msg, res, None)"
  shows "(msg \<noteq> None \<and> res = None) \<or> (msg = None \<and> res \<noteq> None)"
  using assms
  by (auto simp: responseResult_def split: list.splits if_splits option.splits outcome.splits
      sum.splits dest: contentResult_one)

lemma GenerateNextMessage_cases:
  assumes "GenerateNextMessage J t d s sc fc conv fm lm w = (Return r, w')"
  shows "(\<exists>e. r = (None, None, Some e)) \<or> (\<exists>resp. responseResult conv resp = Return r)"
  using assms
  by (auto simp: GenerateNextMessage_def Let_def
      split: sum.splits prod.splits option.splits)

lemma contentResult_no_result:
  "contentResult choice = Return (msg, Some res, err) \<Longrightarrow> False"
  by (auto simp: contentResult_def split: if_splits)

lemma verdictResult_Conversation: "Conversation (verdictResult conv params) = conv"
  by (cases params)
     (simp add: verdictResult_def NewSuccessPartialResult_def NewFailurePartialResult_def
        NewInconclusivePartialResult_def)

lemma responseResult_Conversation:
  assumes "responseResult conv resp = Return (msg, Some res, err)"
  shows "Conversation res = conv"
  using assms
  by (auto simp: responseResult_def verdictResult_Conversation
      split: list.splits if_splits option.splits outcome.splits sum.splits
      dest: contentResult_no_result)

lemma GenerateNextMessage_response:
  assumes "completionMessages J d s sc fc conv lm = Inr messages"
    and "llmCompletion t messages (temperature t) (maxTokens t) [finishTestTool]
           (if \<not> lm then None else Some ''required'') w = ((Some resp, None), w')"
  shows "GenerateNextMessage J t d s sc fc conv fm lm w = (responseResult conv resp, w')"
  using assms by (simp add: GenerateNextMessage_def)

text \<open>What the testing agent returns when the counting backend answers with \<open>resp\<close>.\<close>

lemma GenerateNextMessage_replyLLM:
  "GenerateNextMessage renderCriteria (NewTestingAgent (replyLLM resp)) d s sc fc conv fm lm w
     = (responseResult conv resp, Suc w)"
  by (rule GenerateNextMessage_response [OF completionMessages_renderCriteria])
     (simp add: NewTestingAgent_def replyLLM_def)

lemma responseResult_finishCall:
  "responseResult conv (callResponse content [finishCall verdict fullDetails]) =
     Return (None,
       Some (verdictResult conv (verdict, ''done'', [''recipe given''], [''no meat''], [])),
       None)"
  by (simp add: responseResult_def callResponse_def finishCall_def fullDetails_def
      ToolTypeFunction_def extractFinishTestParams_def extractStringArray_def)

text \<open>
  C2 (verdict mapping). For a finish_test call that parses to a verdict, a reasoning and
  three criteria lists, GenerateNextMessage returns a Result and no text or error: for the
  verdict ''success'' a Result with Success true that carries the met criteria; for
  ''failure'' and for every other verdict string one and the same shape, Success false
  with the met, unmet and triggered lists.
\<close>

theorem GenerateNextMessage_verdict_mapping:
  assumes "completionMessages J d s sc fc conv lm = Inr messages"
    and "llmCompletion t messages (temperature t) (maxTokens t) [finishTestTool]
           (if \<not> lm then None else Some ''required'') w = ((Some resp, None), w')"
    and "Choices resp = choice # choices"
    and "choiceToolCalls (choiceMessage choice) = toolCall # toolCalls"
    and "Type toolCall = ToolTypeFunction"
    and "Function toolCall = Some f"
    and "Name f = ''finish_test''"
    and "extractFinishTestParams toolCall =
           Return (Inr (verdict, reasoning, met, unmet, triggered))"
  shows "GenerateNextMessage J t d s sc fc conv fm lm w =
           (Return (None,
              Some (if verdict = ''success''
                    then \<lparr>Success = True, Conversation = conv, Reasoning = reasoning,
                          MetCriteria = met, UnmetCriteria = [], TriggeredFailures = [],
                          TotalDurationNSec = 0, AgentDurationNSec = 0\<rparr>
                    else \<lparr>Success = False, Conversation = conv, Reasoning = reasoning,
                          MetCriteria = met, UnmetCriteria = unmet,
                          TriggeredFailures = triggered,
                          TotalDurationNSec = 0, AgentDurationNSec = 0\<rparr>),
              None), w')"
  using assms(3-8)
  by (simp add: GenerateNextMessage_response [OF assms(1,2)] responseResult_def
      verdictResult_def NewSuccessPartialResult_def NewFailurePartialResult_def
      NewInconclusivePartialResult_def)

text \<open>Witness for C2: the verdict ''inconclusive'', on the last message of a conversation.\<close>

theorem GenerateNextMessage_verdict_mapping_witness:
  "GenerateNextMessage renderCriteria
       (NewTestingAgent (replyLLM (callResponse [] [finishCall ''inconclusive'' fullDetails])))
       ''d'' ''s'' [''recipe given''] [] sampleConversation False True 0
     = (Return (None,
          Some \<lparr>Success = False, Conversation = sampleConversation, Reasoning = ''done'',
                MetCriteria = [''recipe given''], UnmetCriteria = [''no meat''],
                TriggeredFailures = [],
                TotalDurationNSec = 0, AgentDurationNSec = 0\<rparr>,
          None), Suc 0)"
proof -
  let ?call = "finishCall ''inconclusive'' fullDetails"
  let ?resp = "callResponse [] [?call]"
  let ?t = "NewTestingAgent (replyLLM ?resp)"
  let ?choice = "\<lparr>choiceMessage = \<lparr>choiceContent = [], choiceToolCalls = [?call]\<rparr>\<rparr>"
  let ?f = "\<lparr>Name = ''finish_test'',
        Arguments = [(''verdict'', AString ''inconclusive''), (''reasoning'', AString ''done''),
                     (''details'', AMap fullDetails)]\<rparr>"
  have llm: "llmCompletion ?t messages (temperature ?t) (maxTokens ?t) [finishTestTool]
           (if \<not> True then None else Some ''required'') 0 = ((Some ?resp, None), Suc 0)"
    for messages
    by (simp add: NewTestingAgent_def replyLLM_def)
  have choices: "Choices ?resp = ?choice # []"
    by (simp add: callResponse_def)
  have calls: "choiceToolCalls (choiceMessage ?choice) = ?call # []"
    by simp
  have ty: "Type ?call = ToolTypeFunction"
    by (simp add: finishCall_def)
  have fn: "Function ?call = Some ?f"
    by (simp add: finishCall_def)
  have nm: "Name ?f = ''finish_test''"
    by simp
  have ex: "extractFinishTestParams ?call =
      Return (Inr (''inconclusive'', ''done'', [''recipe given''], [''no meat''], []))"
    by (simp add: extractFinishTestParams_def finishCall_def fullDetails_def
        extractStringArray_def)
  show ?thesis
    using GenerateNextMessage_verdict_mapping
      [OF completionMessages_renderCriteria llm choices calls ty fn nm ex]
    by simp
qed

text \<open>
  C7 (exactly one of text and verdict). Whenever GenerateNextMessage returns with a nil
  error, either the text is set and the Result is nil, or the text is nil and the Result is
  set.
\<close>

theorem GenerateNextMessage_exactly_one:
  assumes "GenerateNextMessage J t d s sc fc conv fm lm w = (Return (msg, res, None), w')"
  shows "(msg \<noteq> None \<and> res = None) \<or> (msg = None \<and> res \<noteq> None)"
proof -
  from GenerateNextMessage_cases [OF assms]
  obtain resp where "responseResult conv resp = Return (msg, res, None)"
    by auto
  then show ?thesis by (rule responseResult_one)
qed

text \<open>Witness for C7: a backend that answers the opening request with plain text.\<close>

theorem GenerateNextMessage_exactly_one_witness:
  "GenerateNextMessage renderCriteria (NewTestingAgent (replyLLM (callResponse ''hi there'' [])))
       ''d'' ''s'' [] [] [] True False 0
     = (Return (Some ''hi there'', None, None), Suc 0)
   \<and> ((Some ''hi there'' \<noteq> None \<and> (None :: Result option) = None)
        \<or> (Some ''hi there'' = (None :: string option) \<and> (None :: Result option) \<noteq> None))"
proof -
  have run: "GenerateNextMessage renderCriteria
       (NewTestingAgent (replyLLM (callResponse ''hi there'' [])))
       ''d'' ''s'' [] [] [] True False 0
     = (Return (Some ''hi there'', None, None), Suc 0)"
    by (simp add: GenerateNextMessage_replyLLM responseResult_def callResponse_def
        contentResult_def)
  from GenerateNextMessage_exactly_one [OF run] run show ?thesis
    by simp
qed

text \<open>
  C9 (the verdict carries the caller's conversation). Whenever GenerateNextMessage returns
  a Result, its Conversation is the conversation argument itself; the transcript sent to
  the backend is that conversation between the system prompt and greeting in front and,
  on the last message, the finish cue behind, none of which enter the Result.
\<close>

theorem GenerateNextMessage_result_conversation:
  assumes "GenerateNextMessage J t d s sc fc conv fm lm w = (Return (msg, Some res, err), w')"
  shows "Conversation res = conv
       \<and> (\<forall>sys. buildMessages sys conv lm =
            [\<lparr>Role = MessageRoleSystem, Content = sys, ToolCalls = []\<rparr>,
             \<lparr>Role = MessageRoleAssistant, Content = testingAgentGreeting, ToolCalls = []\<rparr>]
            @ Conversation res
            @ (if lm then [\<lparr>Role = MessageRoleUser, Content = testingAgentFinishTestMessage,
                              ToolCalls = []\<rparr>] else []))"
proof -
  from GenerateNextMessage_cases [OF assms]
  obtain resp where "responseResult conv resp = Return (msg, Some res, err)"
    by auto
  then have "Conversation res = conv" by (rule responseResult_Conversation)
  then show ?thesis by (simp add: buildMessages_def)
qed

text \<open>Witness for C9: a success verdict given on the last message.\<close>

theorem GenerateNextMessage_result_conversation_witness:
  "GenerateNextMessage renderCriteria
       (NewTestingAgent (replyLLM (callResponse [] [finishCall ''success'' fullDetails])))
       ''d'' ''s'' [] [] sampleConversation False True 0
     = (Return (None,
          Some (NewSuccessPartialResult sampleConversation ''done'' [''recipe given'']),
          None), Suc 0)
   \<and> Conversation (NewSuccessPartialResult sampleConversation ''done'' [''recipe given''])
       = sampleConversation"
proof -
  have run: "GenerateNextMessage renderCriteria
       (NewTestingAgent (replyLLM (callResponse [] [finishCall ''success'' fullDetails])))
       ''d'' ''s'' [] [] sampleConversation False True 0
     = (Return (None,
          Some (NewSuccessPartialResult sampleConversation ''done'' [''recipe given'']),
          None), Suc 0)"
    by (simp add: GenerateNextMessage_replyLLM responseResult_finishCall verdictResult_def)
  from GenerateNextMessage_result_conversation [OF run] run show ?thesis
    by simp
qed

text \<open>
  C10 (a tool call other than finish_test). If the first tool call of the first choice is of
  function type and names a function other than finish_test, GenerateNextMessage gives no
  verdict and no parse error: it returns the text content of the choice when that is not
  empty, and the error ''no content returned in choice'' when it is.
\<close>

theorem GenerateNextMessage_other_tool:
  assumes "completionMessages J d s sc fc conv lm = Inr messages"
    and "llmCompletion t messages (temperature t) (maxTokens t) [finishTestTool]
           (if \<not> lm then None else Some ''required'') w = ((Some resp, None), w')"
    and "Choices resp = choice # choices"
    and "choiceToolCalls (choiceMessage choice) = toolCall # toolCalls"
    and "Type toolCall = ToolTypeFunction"
    and "Function toolCall = Some f"
    and "Name f \<noteq> ''finish_test''"
  shows "GenerateNextMessage J t d s sc fc conv fm lm w =
           (if choiceContent (choiceMessage choice) = []
            then Return (None, None, Some (New ''no content returned in choice''))
            else Return (Some (choiceContent (choiceMessage choice)), None, None), w')"
  using assms(3-7)
  by (simp add: GenerateNextMessage_response [OF assms(1,2)] responseResult_def
      contentResult_def)

text \<open>Witness for C10: a call of another tool, once with text beside it and once without.\<close>

theorem GenerateNextMessage_other_tool_witness:
  "GenerateNextMessage renderCriteria
       (NewTestingAgent (replyLLM (callResponse ''any recipe'' [lookupCall])))
       ''d'' ''s'' [] [] sampleConversation False False 0
     = (Return (Some ''any recipe'', None, None), Suc 0)
   \<and> GenerateNextMessage renderCriteria
       (NewTestingAgent (replyLLM (callResponse [] [lookupCall])))
       ''d'' ''s'' [] [] sampleConversation False False 0
     = (Return (None, None, Some (New ''no content returned in choice'')), Suc 0)"
proof -
  let ?f = "\<lparr>Name = ''lookup_recipe'', Arguments = []\<rparr>"
  have llm: "llmCompletion (NewTestingAgent (replyLLM resp)) messages
           (temperature (NewTestingAgent (replyLLM resp)))
           (maxTokens (NewTestingAgent (replyLLM resp))) [finishTestTool]
           (if \<not> False then None else Some ''required'') 0 = ((Some resp, None), Suc 0)"
    for messages resp
    by (simp add: NewTestingAgent_def replyLLM_def)
  have choices: "Choices (callResponse content [lookupCall]) =
      \<lparr>choiceMessage = \<lparr>choiceContent = content, choiceToolCalls = [lookupCall]\<rparr>\<rparr> # []"
    for content
    by (simp add: callResponse_def)
  have calls: "choiceToolCalls (choiceMessage
      \<lparr>choiceMessage = \<lparr>choiceContent = content, choiceToolCalls = [lookupCall]\<rparr>\<rparr>)
      = lookupCall # []" for content
    by simp
  have ty: "Type lookupCall = ToolTypeFunction"
    by (simp add: lookupCall_def)
  have fn: "Function lookupCall = Some ?f"
    by (simp add: lookupCall_def)
  have nm: "Name ?f \<noteq> ''finish_test''"
    by simp
  show ?thesis
    using GenerateNextMessage_other_tool
        [OF completionMessages_renderCriteria llm choices calls ty fn nm,
          where content1 = "''any recipe''"]
      GenerateNextMessage_other_tool
        [OF completionMessages_renderCriteria llm choices calls ty fn nm,
          where content1 = "[]"]
    by simp
qed

section \<open>Properties of the scenario engine\<close>

subsection \<open>What a run records\<close>

lemma startRun_sel [simp]:
  "scn (startRun s w) = s" "world (startRun s w) = w" "calls (startRun s w) = []"
  by (simp_all add: startRun_def)

lemma dropLeading_conv:
  "(if length ms > 0 \<and> Role (ms ! 0) = r then drop 1 ms else ms) = dropLeading r ms"
  by (cases ms) simp_all

lemma removeFirstMessages_normalizeReply: "removeFirstMessages reply = normalizeReply reply"
  by (simp only: removeFirstMessages_def normalizeReply_def Let_def dropLeading_conv)

lemma turn_recorded:
  "\<exists>new. calls (stepState (turn now ag ta t0 it ad cm st)) = calls st @ new
       \<and> conversation (scn (stepState (turn now ag ta t0 it ad cm st)))
           = conversation (scn st) @ concat (map recorded new)"
  by (auto simp: turn_def Let_def removeFirstMessages_normalizeReply MessageRoleUser_def
      normalizeReply_def
      split: option.splits outcome.splits prod.splits if_splits)

lemma turnLoop_recorded:
  "\<exists>new. calls (snd (turnLoop now ag ta t0 n it ad cm st)) = calls st @ new
       \<and> conversation (scn (snd (turnLoop now ag ta t0 n it ad cm st)))
           = conversation (scn st) @ concat (map recorded new)"
proof (induction n arbitrary: it ad cm st)
  case 0
  show ?case by simp
next
  case (Suc n)
  from turn_recorded [of now ag ta t0 it ad cm st]
  obtain new where new:
    "calls (stepState (turn now ag ta t0 it ad cm st)) = calls st @ new"
    "conversation (scn (stepState (turn now ag ta t0 it ad cm st)))
       = conversation (scn st) @ concat (map recorded new)"
    by blast
  show ?case
  proof (cases "turn now ag ta t0 it ad cm st")
    case (Done res st')
    with new show ?thesis by simp
  next
    case (Next nm ad' st')
    from Suc.IH [of "it + 1" ad' nm st']
    obtain more where more:
      "calls (snd (turnLoop now ag ta t0 n (it + 1) ad' nm st')) = calls st' @ more"
      "conversation (scn (snd (turnLoop now ag ta t0 n (it + 1) ad' nm st')))
         = conversation (scn st') @ concat (map recorded more)"
      by blast
    from new Next more show ?thesis
      by (intro exI [of _ "new @ more"]) simp
  qed
qed

lemma Run_recorded:
  "\<exists>new. calls (snd (Run now st)) = calls st @ new
       \<and> conversation (scn (snd (Run now st)))
           = conversation (scn st) @ concat (map recorded new)"
proof (cases "agent (scn st)")
  case None
  then show ?thesis by (simp add: Run_def)
next
  case ag: (Some ag)
  show ?thesis
  proof (cases "testingAgent (scn st)")
    case None
    with ag show ?thesis by (simp add: Run_def)
  next
    case ta: (Some ta)
    let ?s = "scn st"
    let ?gen = "ta (description ?s) (strategy ?s) (successCriteria ?s) (failureCriteria ?s)
                  (conversation ?s) True False (world st)"
    let ?st1 = "st\<lparr>world := snd ?gen,
                   calls := calls st @ [TestingAgentCall (conversation ?s) True False (fst ?gen)]\<rparr>"
    show ?thesis
    proof (cases "\<exists>im. fst ?gen = Return (im, None, None)")
      case True
      then obtain im where im: "fst ?gen = Return (im, None, None)" by blast
      have run: "Run now st = turnLoop now ag ta (now (world st)) (nat (maxTurns ?s)) 0 0 im ?st1"
        using ag ta im by (simp add: Run_def Let_def)
      from turnLoop_recorded [of now ag ta "now (world st)" "nat (maxTurns ?s)" 0 0 im ?st1]
      obtain more where
        "calls (snd (Run now st)) = calls ?st1 @ more"
        "conversation (scn (snd (Run now st)))
           = conversation (scn ?st1) @ concat (map recorded more)"
        unfolding run by blast
      then show ?thesis
        by (intro exI [of _ "TestingAgentCall (conversation ?s) True False (fst ?gen) # more"])
           simp
    next
      case False
      then have "snd (Run now st) = ?st1"
        using ag ta
        by (auto simp: Run_def Let_def split: outcome.splits option.splits prod.splits)
      then show ?thesis
        by (intro exI [of _ "[TestingAgentCall (conversation ?s) True False (fst ?gen)]"])
           simp
    qed
  qed
qed

lemma scenarioWith_sel [simp]:
  "description (scenarioWith ag ta n) = ''Test Description''"
  "strategy (scenarioWith ag ta n) =
     ''Start with a first message and guide the conversation to play out the scenario.''"
  "agent (scenarioWith ag ta n) = Some ag"
  "testingAgent (scenarioWith ag ta n) = Some ta"
  "successCriteria (scenarioWith ag ta n) = []"
  "failureCriteria (scenarioWith ag ta n) = []"
  "maxTurns (scenarioWith ag ta n) = n"
  "conversation (scenarioWith ag ta n) = []"
  by (simp_all add: scenarioWith_def NewScenario_def)

text \<open>
  A run of one turn against the framing agent, evaluated in full: result, final state and
  call log.
\<close>

lemma Run_framing:
  "Run tickClock (startRun (scenarioWith framingAgent talkingAgent 1) 0) =
     (Return (Some \<lparr>Success = False,
               Conversation =
                 [\<lparr>Role = MessageRoleUser, Content = ''next message'', ToolCalls = []\<rparr>,
                  \<lparr>Role = MessageRoleAssistant, Content = ''try lentils'', ToolCalls = []\<rparr>,
                  \<lparr>Role = MessageRoleUser, Content = ''thanks'', ToolCalls = []\<rparr>],
               Reasoning = ''The conversation did not end in a failure after 1 turns.'',
               MetCriteria = [], UnmetCriteria = [], TriggeredFailures = [],
               TotalDurationNSec = 3000, AgentDurationNSec = 1000\<rparr>, None),
      \<lparr>scn = (scenarioWith framingAgent talkingAgent 1)
               \<lparr>conversation :=
                 [\<lparr>Role = MessageRoleUser, Content = ''next message'', ToolCalls = []\<rparr>,
                  \<lparr>Role = MessageRoleAssistant, Content = ''try lentils'', ToolCalls = []\<rparr>,
                  \<lparr>Role = MessageRoleUser, Content = ''thanks'', ToolCalls = []\<rparr>]\<rparr>,
       world = 3,
       calls =
         [TestingAgentCall [] True False (Return (Some ''next message'', None, None)),
          AgentCall ''next message''
            (Return ([\<lparr>Role = MessageRoleSystem, Content = ''you are a cook'', ToolCalls = []\<rparr>,
               \<lparr>Role = MessageRoleUser, Content = ''next message'', ToolCalls = []\<rparr>,
               \<lparr>Role = MessageRoleAssistant, Content = ''try lentils'', ToolCalls = []\<rparr>,
               \<lparr>Role = MessageRoleUser, Content = ''thanks'', ToolCalls = []\<rparr>], None)),
          TestingAgentCall
            [\<lparr>Role = MessageRoleUser, Content = ''next message'', ToolCalls = []\<rparr>,
             \<lparr>Role = MessageRoleAssistant, Content = ''try lentils'', ToolCalls = []\<rparr>,
             \<lparr>Role = MessageRoleUser, Content = ''thanks'', ToolCalls = []\<rparr>]
            False True (Return (Some ''next message'', None, None))]\<rparr>)"
  by (simp add: Run_def Let_def turn_def talkingAgent_def framingAgent_def
      tickClock_def removeFirstMessages_def exhaustedResult_def formatInt_def digitsOf.simps
      MessageRoleUser_def MessageRoleAssistant_def MessageRoleSystem_def startRun_def)

text \<open>
  C6 (normalising the reply of the agent under test). The code's normalisation of a reply
  drops a leading system message and then a leading user message, and nothing else. In
  every run the conversation at the end is the conversation at the start followed, for each
  call of the agent under test in order, by the user message sent and then the normalised
  reply, unchanged and in its order.
\<close>

theorem Run_records_normalized_replies:
  "removeFirstMessages reply
     = dropLeading MessageRoleUser (dropLeading MessageRoleSystem reply)
   \<and> conversation (scn (snd (Run now (startRun s w))))
     = conversation s @ concat (map recorded (calls (snd (Run now (startRun s w)))))"
  using Run_recorded [of now "startRun s w"] removeFirstMessages_normalizeReply [of reply]
  by (auto simp: normalizeReply_def)

text \<open>
  Witness for C6: a reply that starts with a system message and a user message; both are
  dropped, the later user message stays.
\<close>

theorem Run_records_normalized_replies_witness:
  "conversation (scn (snd (Run tickClock (startRun (scenarioWith framingAgent talkingAgent 1) 0))))
     = [\<lparr>Role = MessageRoleUser, Content = ''next message'', ToolCalls = []\<rparr>,
        \<lparr>Role = MessageRoleAssistant, Content = ''try lentils'', ToolCalls = []\<rparr>,
        \<lparr>Role = MessageRoleUser, Content = ''thanks'', ToolCalls = []\<rparr>]
   \<and> concat (map recorded
         (calls (snd (Run tickClock (startRun (scenarioWith framingAgent talkingAgent 1) 0)))))
     = [\<lparr>Role = MessageRoleUser, Content = ''next message'', ToolCalls = []\<rparr>,
        \<lparr>Role = MessageRoleAssistant, Content = ''try lentils'', ToolCalls = []\<rparr>,
        \<lparr>Role = MessageRoleUser, Content = ''thanks'', ToolCalls = []\<rparr>]"
  using Run_records_normalized_replies
    [where now = tickClock and s = "scenarioWith framingAgent talkingAgent 1" and w = 0
       and reply = "[]"]
  by (simp add: Run_framing)

text \<open>
  The run of the test TestScenario_Run_Success: the model returns what the test expects.
\<close>

lemma Run_mock_success:
  "fst (Run tickClock (startRun (scenarioWith echoAgent mockTestingAgent 2) 0)) =
     Return (Some \<lparr>Success = True,
               Conversation =
                 [\<lparr>Role = MessageRoleUser, Content = ''Initial user message'', ToolCalls = []\<rparr>,
                  \<lparr>Role = MessageRoleAssistant,
                   Content = ''Agent response to: Initial user message'', ToolCalls = []\<rparr>],
               Reasoning = ''Test succeeded'', MetCriteria = [''Success criteria met''],
               UnmetCriteria = [], TriggeredFailures = [],
               TotalDurationNSec = 3000, AgentDurationNSec = 1000\<rparr>, None)"
  by (simp add: Run_def Let_def numeral_2_eq_2 turn_def mockTestingAgent_def echoAgent_def
      tickClock_def removeFirstMessages_def NewSuccessPartialResult_def MessageRoleUser_def
      MessageRoleAssistant_def MessageRoleSystem_def)

subsection \<open>Error paths\<close>

lemma Run_no_agent:
  "agent (scn st) = None \<Longrightarrow>
   Run now st = (Return (Some failedResult, Some (New ''agent not set'')), st)"
  by (simp add: Run_def)

lemma Run_no_testingAgent:
  "agent (scn st) = Some ag \<Longrightarrow> testingAgent (scn st) = None \<Longrightarrow> Run now st = (Panic, st)"
  by (simp add: Run_def)

lemma Run_opening:
  assumes "agent (scn st) = Some ag"
    and "testingAgent (scn st) = Some ta"
    and "ta (description (scn st)) (strategy (scn st)) (successCriteria (scn st))
            (failureCriteria (scn st)) (conversation (scn st)) True False (world st) = (r, w1)"
  shows "Run now st =
    (let st1 = st\<lparr>world := w1,
                   calls := calls st @ [TestingAgentCall (conversation (scn st)) True False r]\<rparr>
     in case r of
          Panic \<Rightarrow> (Panic, st1)
        | Return (initialMessage, initialResult, Some err) \<Rightarrow>
            (Return (Some failedResult,
               Some (Wrap ''failed to generate initial message'' err)), st1)
        | Return (initialMessage, Some initialResult, None) \<Rightarrow>
            (Return (Some initialResult,
               Some (UnexpectedResult
                 ''initial message generated a result which is unexpected''
                 initialResult)), st1)
        | Return (initialMessage, None, None) \<Rightarrow>
            turnLoop now ag ta (now (world st)) (nat (maxTurns (scn st))) 0 0
              initialMessage st1)"
  using assms by (simp add: Run_def Let_def split: outcome.splits option.splits prod.splits)

lemma turn_error:
  assumes "turn now ag ta t0 it ad cm st = Done (Return (res, Some err)) st'"
  shows "res = Some failedResult"
  using assms
  by (auto simp: turn_def Let_def split: option.splits outcome.splits prod.splits if_splits)

lemma turnLoop_error:
  assumes "turnLoop now ag ta t0 n it ad cm st = (Return (res, Some err), st')"
  shows "res = Some failedResult"
  using assms
proof (induction n arbitrary: it ad cm st)
  case 0
  then show ?case by simp
next
  case (Suc n)
  show ?case
  proof (cases "turn now ag ta t0 it ad cm st")
    case (Done r st1)
    with Suc.prems have "turn now ag ta t0 it ad cm st = Done (Return (res, Some err)) st'"
      by simp
    then show ?thesis by (rule turn_error)
  next
    case (Next nm ad' st1)
    with Suc.prems have "turnLoop now ag ta t0 n (it + 1) ad' nm st1 = (Return (res, Some err), st')"
      by simp
    then show ?thesis by (rule Suc.IH)
  qed
qed

text \<open>
  Counterexample to C4 as stated: when the opening call of the testing agent returns a
  verdict, Run returns that verdict's Result together with an error. With a backend that calls
  finish_test with the verdict success at once, the Result returned beside the error has
  Success true.
\<close>

theorem Run_opening_verdict_counterexample:
  "fst (Run tickClock (startRun (scenarioWith echoAgent (verdictAgent ''success'') 10) 0)) =
     Return (Some (NewSuccessPartialResult [] ''done'' [''recipe given'']),
             Some (UnexpectedResult ''initial message generated a result which is unexpected''
                     (NewSuccessPartialResult [] ''done'' [''recipe given''])))
   \<and> Success (NewSuccessPartialResult [] ''done'' [''recipe given''])"
  by (simp add: Run_def Let_def verdictAgent_def GenerateNextMessage_replyLLM
      responseResult_finishCall verdictResult_def NewSuccessPartialResult_def)

text \<open>
  C4 (amended). Whenever Run returns a non-nil error, the Result beside it is non-nil. It
  is the Result with Success false and every other field zero, except when the opening
  call of the testing agent returned a verdict Result without error: then Run returns that
  very Result, whatever its Success.
\<close>

theorem Run_error_result:
  assumes "Run now st = (Return (res, Some err), st')"
  shows "\<exists>r. res = Some r \<and>
           ((r = failedResult \<and> \<not> Success r) \<or>
            (\<exists>ta msg w1. testingAgent (scn st) = Some ta \<and>
               ta (description (scn st)) (strategy (scn st)) (successCriteria (scn st))
                  (failureCriteria (scn st)) (conversation (scn st)) True False (world st)
                 = (Return (msg, Some r, None), w1)))"
proof -
  have failed: "res = Some failedResult \<Longrightarrow> ?thesis"
    by (simp add: failedResult_def)
  show ?thesis
  proof (cases "agent (scn st)")
    case None
    from assms show ?thesis
      unfolding Run_no_agent [OF None] by (intro failed) simp
  next
    case ag: (Some ag)
    show ?thesis
    proof (cases "testingAgent (scn st)")
      case None
      from assms show ?thesis
        unfolding Run_no_testingAgent [OF ag None] by simp
    next
      case ta: (Some ta)
      obtain r w1 where gen:
        "ta (description (scn st)) (strategy (scn st)) (successCriteria (scn st))
            (failureCriteria (scn st)) (conversation (scn st)) True False (world st) = (r, w1)"
        by (cases "ta (description (scn st)) (strategy (scn st)) (successCriteria (scn st))
            (failureCriteria (scn st)) (conversation (scn st)) True False (world st)")
      note run = assms [unfolded Run_opening [OF ag ta gen] Let_def]
      show ?thesis
      proof (cases r)
        case Panic
        with run show ?thesis by simp
      next
        case (Return triple)
        obtain im ir ie where triple: "triple = (im, ir, ie)" by (cases triple)
        show ?thesis
        proof (cases ie)
          case (Some e)
          with run Return triple have "res = Some failedResult" by (cases ir) simp_all
          then show ?thesis by (rule failed)
        next
          case noerr: None
          show ?thesis
          proof (cases ir)
            case (Some r0)
            with run Return triple noerr have "res = Some r0" by simp
            moreover from gen Return triple noerr Some
            have "ta (description (scn st)) (strategy (scn st)) (successCriteria (scn st))
                    (failureCriteria (scn st)) (conversation (scn st)) True False (world st)
                  = (Return (im, Some r0, None), w1)"
              by simp
            ultimately show ?thesis using ta by blast
          next
            case None
            with run Return triple noerr have "res = Some failedResult"
              by (auto dest: turnLoop_error)
            then show ?thesis by (rule failed)
          qed
        qed
      qed
    qed
  qed
qed

text \<open>
  Witness for the amended C4: an agent under test that fails on its first call.
\<close>

theorem Run_error_result_witness:
  "Run tickClock (startRun (scenarioWith failingAgent talkingAgent 10) 0) =
     (Return (Some failedResult, Some (Wrap ''failed to run agent'' (New ''agent failed''))),
      \<lparr>scn = (scenarioWith failingAgent talkingAgent 10)
               \<lparr>conversation :=
                  [\<lparr>Role = MessageRoleUser, Content = ''next message'', ToolCalls = []\<rparr>]\<rparr>,
       world = 2,
       calls = [TestingAgentCall [] True False (Return (Some ''next message'', None, None)),
                AgentCall ''next message'' (Return ([], Some (New ''agent failed'')))]\<rparr>)
   \<and> (\<exists>r. Some failedResult = Some r \<and> r = failedResult \<and> \<not> Success r)"
proof -
  have run: "Run tickClock (startRun (scenarioWith failingAgent talkingAgent 10) 0) =
     (Return (Some failedResult, Some (Wrap ''failed to run agent'' (New ''agent failed''))),
      \<lparr>scn = (scenarioWith failingAgent talkingAgent 10)
               \<lparr>conversation :=
                  [\<lparr>Role = MessageRoleUser, Content = ''next message'', ToolCalls = []\<rparr>]\<rparr>,
       world = 2,
       calls = [TestingAgentCall [] True False (Return (Some ''next message'', None, None)),
                AgentCall ''next message'' (Return ([], Some (New ''agent failed'')))]\<rparr>)"
    by (simp add: Run_def Let_def eval_nat_numeral turn_def talkingAgent_def failingAgent_def
        startRun_def MessageRoleUser_def)
  have other: "\<not> (\<exists>ta msg w1.
       testingAgent (scn (startRun (scenarioWith failingAgent talkingAgent 10) 0)) = Some ta \<and>
       ta (description (scn (startRun (scenarioWith failingAgent talkingAgent 10) 0)))
          (strategy (scn (startRun (scenarioWith failingAgent talkingAgent 10) 0)))
          (successCriteria (scn (startRun (scenarioWith failingAgent talkingAgent 10) 0)))
          (failureCriteria (scn (startRun (scenarioWith failingAgent talkingAgent 10) 0)))
          (conversation (scn (startRun (scenarioWith failingAgent talkingAgent 10) 0)))
          True False (world (startRun (scenarioWith failingAgent talkingAgent 10) 0))
        = (Return (msg, Some failedResult, None), w1))"
    by (simp add: talkingAgent_def)
  from Run_error_result [OF run] other run show ?thesis
    by auto
qed

subsection \<open>Running out of turns\<close>

text \<open>
  C8 (non-positive turn budget). If maxTurns is at most 0, both collaborators are set and
  the opening call returns a text, Run returns without error the Result with Success
  false, the scenario's conversation, empty criteria lists and the reasoning text formatted
  with the configured maxTurns; the only collaborator call of the run is the opening call,
  so the agent under test is not called and no turn is executed.
\<close>

theorem Run_nonpositive_maxTurns:
  assumes "maxTurns s \<le> 0"
    and "agent s = Some ag"
    and "testingAgent s = Some ta"
    and "ta (description s) (strategy s) (successCriteria s) (failureCriteria s)
            (conversation s) True False w = (Return (Some msg, None, None), w')"
  shows "Run now (startRun s w) =
           (Return
              (Some \<lparr>Success = False, Conversation = conversation s,
                     Reasoning = ''The conversation did not end in a failure after ''
                                   @ formatInt (maxTurns s) @ '' turns.'',
                     MetCriteria = [], UnmetCriteria = [], TriggeredFailures = [],
                     TotalDurationNSec = now w' - now w, AgentDurationNSec = 0\<rparr>,
               None),
            \<lparr>scn = s, world = w',
             calls = [TestingAgentCall (conversation s) True False
                        (Return (Some msg, None, None))]\<rparr>)"
  using assms by (simp add: Run_def startRun_def Let_def exhaustedResult_def)

text \<open>
  Witness for C8: maxTurns = -3.
\<close>

theorem Run_nonpositive_maxTurns_witness:
  "Run tickClock (startRun (scenarioWith echoAgent talkingAgent (- 3)) 0) =
     (Return
        (Some \<lparr>Success = False, Conversation = [],
               Reasoning = ''The conversation did not end in a failure after -3 turns.'',
               MetCriteria = [], UnmetCriteria = [], TriggeredFailures = [],
               TotalDurationNSec = 1000, AgentDurationNSec = 0\<rparr>,
         None),
      \<lparr>scn = scenarioWith echoAgent talkingAgent (- 3), world = Suc 0,
       calls = [TestingAgentCall [] True False (Return (Some ''next message'', None, None))]\<rparr>)"
proof -
  let ?s = "scenarioWith echoAgent talkingAgent (- 3)"
  have neg: "maxTurns ?s \<le> 0" by simp
  have ag: "agent ?s = Some echoAgent" by simp
  have ta: "testingAgent ?s = Some talkingAgent" by simp
  have gen: "talkingAgent (description ?s) (strategy ?s) (successCriteria ?s)
               (failureCriteria ?s) (conversation ?s) True False 0
             = (Return (Some ''next message'', None, None), Suc 0)"
    by (simp add: talkingAgent_def)
  show ?thesis
    using Run_nonpositive_maxTurns [OF neg ag ta gen, of tickClock]
    by (simp add: tickClock_def formatInt_def digitsOf.simps)
qed

lemma conversation_applyOption: "conversation (applyOption opt s) = conversation s"
  by (cases opt) simp_all

lemma conversation_foldl_applyOption:
  "conversation (foldl (\<lambda>s opt. applyOption opt s) s opts) = conversation s"
  by (induction opts arbitrary: s) (simp_all add: conversation_applyOption)

lemma conversation_NewScenario: "conversation (NewScenario opts) = []"
  by (simp add: NewScenario_def conversation_foldl_applyOption)

text \<open>
  One turn in which the agent under test returns a single assistant message and the
  testing agent returns a text.
\<close>

lemma turn_talk:
  assumes "ag cur (world st) = (Return ([rep], None), w1)"
    and "Role rep = MessageRoleAssistant"
    and "ta (description (scn st)) (strategy (scn st)) (successCriteria (scn st))
            (failureCriteria (scn st))
            (conversation (scn st) @
               [\<lparr>Role = MessageRoleUser, Content = cur, ToolCalls = []\<rparr>, rep])
            False (it = maxTurns (scn st) - 1) w1 = (Return (Some nm, None, None), w2)"
  shows "turn now ag ta t0 it ad (Some cur) st =
           Next (Some nm) (ad + (now w1 - now (world st)))
             (st\<lparr>scn := (scn st)\<lparr>conversation := conversation (scn st) @
                        [\<lparr>Role = MessageRoleUser, Content = cur, ToolCalls = []\<rparr>, rep]\<rparr>,
                 world := w2,
                 calls := calls st @
                   [AgentCall cur (Return ([rep], None)),
                    TestingAgentCall
                      (conversation (scn st) @
                        [\<lparr>Role = MessageRoleUser, Content = cur, ToolCalls = []\<rparr>, rep])
                      False (it = maxTurns (scn st) - 1) (Return (Some nm, None, None))]\<rparr>)"
  using assms
  by (simp add: turn_def Let_def removeFirstMessages_def MessageRoleUser_def
      MessageRoleAssistant_def MessageRoleSystem_def)

lemma turnLoop_talk:
  assumes H_ag: "\<And>m w. \<exists>rep w'. ag m w = (Return ([rep], None), w')
                    \<and> Role rep = MessageRoleAssistant"
    and H_ta: "\<And>d x sc fc conv f l w. \<exists>msg w'.
                 ta d x sc fc conv f l w = (Return (Some msg, None, None), w')"
  shows "\<exists>ad' st'. turnLoop now ag ta t0 n it ad (Some cm) st
             = (Return (Some (exhaustedResult now t0 ad' st'), None), st')
           \<and> maxTurns (scn st') = maxTurns (scn st)
           \<and> (\<exists>ms. conversation (scn st') = conversation (scn st) @ ms
                 \<and> map Role ms = concat (replicate n [MessageRoleUser, MessageRoleAssistant]))"
proof (induction n arbitrary: it ad cm st)
  case 0
  show ?case by auto
next
  case (Suc n)
  from H_ag [of cm "world st"] obtain rep w1 where
    ag: "ag cm (world st) = (Return ([rep], None), w1)" and role: "Role rep = MessageRoleAssistant"
    by blast
  let ?conv = "conversation (scn st) @
                 [\<lparr>Role = MessageRoleUser, Content = cm, ToolCalls = []\<rparr>, rep]"
  from H_ta obtain nm w2 where
    ta: "ta (description (scn st)) (strategy (scn st)) (successCriteria (scn st))
            (failureCriteria (scn st)) ?conv False (it = maxTurns (scn st) - 1) w1
          = (Return (Some nm, None, None), w2)"
    by blast
  let ?st = "st\<lparr>scn := (scn st)\<lparr>conversation := ?conv\<rparr>, world := w2,
                 calls := calls st @
                   [AgentCall cm (Return ([rep], None)),
                    TestingAgentCall ?conv False (it = maxTurns (scn st) - 1)
                      (Return (Some nm, None, None))]\<rparr>"
  let ?ad = "ad + (now w1 - now (world st))"
  have step: "turnLoop now ag ta t0 (Suc n) it ad (Some cm) st
                = turnLoop now ag ta t0 n (it + 1) ?ad (Some nm) ?st"
    by (simp add: turn_talk [where ag = ag and ta = ta and cur = cm and st = st,
          OF ag role ta])
  from Suc.IH [of "it + 1" ?ad nm ?st] obtain ad' st' ms where
    loop: "turnLoop now ag ta t0 n (it + 1) ?ad (Some nm) ?st
             = (Return (Some (exhaustedResult now t0 ad' st'), None), st')"
    and mt: "maxTurns (scn st') = maxTurns (scn ?st)"
    and conv: "conversation (scn st') = conversation (scn ?st) @ ms"
    and roles: "map Role ms = concat (replicate n [MessageRoleUser, MessageRoleAssistant])"
    by blast
  have "conversation (scn st') = conversation (scn st) @
          ([\<lparr>Role = MessageRoleUser, Content = cm, ToolCalls = []\<rparr>, rep] @ ms)"
    using conv by simp
  moreover have "map Role ([\<lparr>Role = MessageRoleUser, Content = cm, ToolCalls = []\<rparr>, rep] @ ms)
      = concat (replicate (Suc n) [MessageRoleUser, MessageRoleAssistant])"
    using roles role by simp
  moreover have "maxTurns (scn st') = maxTurns (scn st)"
    using mt by simp
  ultimately show ?case
    using loop unfolding step by blast
qed

lemma length_concat_replicate_pair: "length (concat (replicate n [a, b])) = 2 * n"
  by (induction n) simp_all

text \<open>
  C5 (turn budget exhausted). For a scenario built by NewScenario with maxTurns = N, N at
  least 1, if every call of the testing agent returns a text and every call of the agent
  under test returns exactly one message of role assistant and no error, then Run returns
  without error a Result with Success false whose Conversation has 2N messages, a user
  message then an assistant message for each turn, namely what the calls of the agent
  under test recorded in call order; its Reasoning is the text
  ''The conversation did not end in a failure after N turns.'' and its three criteria lists
  are empty.
\<close>

theorem Run_turns_exhausted:
  assumes "1 \<le> N"
    and "agent (NewScenario opts) = Some ag"
    and "testingAgent (NewScenario opts) = Some ta"
    and "maxTurns (NewScenario opts) = int N"
    and "\<forall>m w. \<exists>rep w'. ag m w = (Return ([rep], None), w') \<and> Role rep = MessageRoleAssistant"
    and "\<forall>d x sc fc conv f l w. \<exists>msg w'.
           ta d x sc fc conv f l w = (Return (Some msg, None, None), w')"
  shows "\<exists>r st'. Run now (startRun (NewScenario opts) w) = (Return (Some r, None), st')
           \<and> \<not> Success r
           \<and> length (Conversation r) = 2 * N
           \<and> map Role (Conversation r)
               = concat (replicate N [MessageRoleUser, MessageRoleAssistant])
           \<and> Conversation r = concat (map recorded (calls st'))
           \<and> Reasoning r = ''The conversation did not end in a failure after ''
                             @ formatInt (int N) @ '' turns.''
           \<and> MetCriteria r = [] \<and> UnmetCriteria r = [] \<and> TriggeredFailures r = []"
proof -
  let ?s = "NewScenario opts"
  let ?st = "startRun ?s w"
  have H_ag: "\<And>m w. \<exists>rep w'. ag m w = (Return ([rep], None), w')
                    \<and> Role rep = MessageRoleAssistant"
    using assms(5) by blast
  have H_ta: "\<And>d x sc fc conv f l w. \<exists>msg w'.
                 ta d x sc fc conv f l w = (Return (Some msg, None, None), w')"
    using assms(6) by blast
  have ag: "agent (scn ?st) = Some ag" and ta: "testingAgent (scn ?st) = Some ta"
    using assms(2,3) by simp_all
  from H_ta obtain m0 w0 where
    gen: "ta (description (scn ?st)) (strategy (scn ?st)) (successCriteria (scn ?st))
            (failureCriteria (scn ?st)) (conversation (scn ?st)) True False (world ?st)
          = (Return (Some m0, None, None), w0)"
    by blast
  let ?st1 = "?st\<lparr>world := w0,
                   calls := calls ?st @ [TestingAgentCall (conversation (scn ?st)) True False
                                          (Return (Some m0, None, None))]\<rparr>"
  have run: "Run now ?st = turnLoop now ag ta (now (world ?st)) N 0 0 (Some m0) ?st1"
    using assms(4) by (simp add: Run_opening [OF ag ta gen])
  from turnLoop_talk [of ag ta now "now (world ?st)" N 0 0 m0 ?st1, OF H_ag H_ta]
  obtain ad' st' ms where
    loop: "turnLoop now ag ta (now (world ?st)) N 0 0 (Some m0) ?st1
             = (Return (Some (exhaustedResult now (now (world ?st)) ad' st'), None), st')"
    and mt: "maxTurns (scn st') = maxTurns (scn ?st1)"
    and conv: "conversation (scn st') = conversation (scn ?st1) @ ms"
    and roles: "map Role ms = concat (replicate N [MessageRoleUser, MessageRoleAssistant])"
    by blast
  let ?r = "exhaustedResult now (now (world ?st)) ad' st'"
  have c: "Conversation ?r = ms"
    using conv by (simp add: exhaustedResult_def conversation_NewScenario)
  from Run_recorded [of now ?st] have rec: "Conversation ?r = concat (map recorded (calls st'))"
    unfolding run loop
    by (auto simp: exhaustedResult_def conversation_NewScenario)
  have len: "length (Conversation ?r) = 2 * N"
    unfolding c using arg_cong [OF roles, of length]
    by (simp add: length_concat_replicate_pair)
  have reason: "Reasoning ?r = ''The conversation did not end in a failure after ''
                             @ formatInt (int N) @ '' turns.''"
    using mt assms(4) by (simp add: exhaustedResult_def)
  have rest: "\<not> Success ?r" "MetCriteria ?r = []" "UnmetCriteria ?r = []"
    "TriggeredFailures ?r = []"
    by (simp_all add: exhaustedResult_def)
  from run loop have "Run now ?st = (Return (Some ?r, None), st')" by simp
  with rest len rec reason roles c show ?thesis by metis
qed

text \<open>
  Witness for C5: N = 2 with the echoing agent and the testing agent that never gives a
  verdict.
\<close>

theorem Run_turns_exhausted_witness:
  "\<exists>r st'. Run tickClock
              (startRun (NewScenario [WithAgent (Some echoAgent),
                 WithTestingAgent (Some talkingAgent), WithMaxTurns 2]) 0)
            = (Return (Some r, None), st')
       \<and> \<not> Success r
       \<and> length (Conversation r) = 4
       \<and> map Role (Conversation r)
           = [MessageRoleUser, MessageRoleAssistant, MessageRoleUser, MessageRoleAssistant]
       \<and> Conversation r = concat (map recorded (calls st'))
       \<and> Reasoning r = ''The conversation did not end in a failure after 2 turns.''
       \<and> MetCriteria r = [] \<and> UnmetCriteria r = [] \<and> TriggeredFailures r = []"
proof -
  let ?opts = "[WithAgent (Some echoAgent), WithTestingAgent (Some talkingAgent),
                WithMaxTurns 2]"
  have n: "1 \<le> (2 :: nat)" by simp
  have ag: "agent (NewScenario ?opts) = Some echoAgent" by (simp add: NewScenario_def)
  have ta: "testingAgent (NewScenario ?opts) = Some talkingAgent" by (simp add: NewScenario_def)
  have mt: "maxTurns (NewScenario ?opts) = int 2" by (simp add: NewScenario_def)
  have H_ag: "\<forall>m w. \<exists>rep w'. echoAgent m w = (Return ([rep], None), w')
                \<and> Role rep = MessageRoleAssistant"
    by (simp add: echoAgent_def)
  have H_ta: "\<forall>d x sc fc conv f l w. \<exists>msg w'.
                talkingAgent d x sc fc conv f l w = (Return (Some msg, None, None), w')"
    by (simp add: talkingAgent_def)
  have twice: "concat (replicate 2 [a, b]) = [a, b, a, b]" for a b :: MessageRole
    by (simp add: numeral_2_eq_2)
  show ?thesis
    using Run_turns_exhausted [OF n ag ta mt H_ag H_ta, of tickClock 0]
    by (simp add: twice formatInt_def digitsOf.simps)
qed

end
